theory Spec2Isabelle
  imports Complex_Main "HOL-Library.Sublist"
begin

section \<open>MU Foods API: data model\<close>

text \<open>
  The backend (\<^verbatim>\<open>main.py\<close>, \<^verbatim>\<open>schemas.py\<close>) is a set of HTTP handlers over a document
  store. Handlers are modelled as functions of the store and the request; a handler that
  writes returns the new store as well. A raise is the left summand of the result.

  Strings are \<open>string\<close>; a character stands for one code point of the Python \<^verbatim>\<open>str\<close>.
  The numbers of \<^verbatim>\<open>price\<close> are reals: the claims about them are about their order
  only, which rounding a decimal literal to the nearest double keeps.
\<close>

type_synonym datetime = int
type_synonym object_id = nat

text \<open>
  The exceptions the handlers and the libraries under them raise, each with its message.
  \<open>HTTPException\<close> carries its status code.
\<close>

datatype exn =
  HTTPException nat string
  | RequestValidationError string
  | ValidationError string
  | OperationFailure string
  | Exception string

text \<open>
  A document of the collection \<^verbatim>\<open>beverage\<close>: the fields of the class \<^verbatim>\<open>Beverage\<close>
  of \<^verbatim>\<open>schemas.py\<close>, the two time stamps the seed adds, and the key \<^verbatim>\<open>_id\<close> the store
  assigns (\<open>mongo_id\<close>). A key a document may lack is an \<open>option\<close>: \<open>None\<close> is the
  absent key.
\<close>

record beverage_doc =
  mongo_id :: "object_id option"
  name :: string
  flavor :: string
  description :: "string option"
  price :: real
  size_ml :: int
  image_url :: "string option"
  tags :: "string list"
  in_stock :: bool
  created_at :: "datetime option"
  updated_at :: "datetime option"

text \<open>The values a key of a beverage document holds, for the store's query operators.\<close>

datatype bson =
  BBool bool
  | BStr string
  | BStrList "string list"
  | BNum real
  | BInt int
  | BDate datetime
  | BObjectId object_id

definition field_value :: "beverage_doc \<Rightarrow> string \<Rightarrow> bson option" where
  "field_value d k =
     (if k = ''_id'' then map_option BObjectId (mongo_id d)
      else if k = ''name'' then Some (BStr (name d))
      else if k = ''flavor'' then Some (BStr (flavor d))
      else if k = ''description'' then map_option BStr (description d)
      else if k = ''price'' then Some (BNum (price d))
      else if k = ''size_ml'' then Some (BInt (size_ml d))
      else if k = ''image_url'' then map_option BStr (image_url d)
      else if k = ''tags'' then Some (BStrList (tags d))
      else if k = ''in_stock'' then Some (BBool (in_stock d))
      else if k = ''created_at'' then map_option BDate (created_at d)
      else if k = ''updated_at'' then map_option BDate (updated_at d)
      else None)"

section \<open>The store's filters\<close>

text \<open>
  \<^verbatim>\<open>list_beverages\<close> builds a filter dictionary with up to three keys:
  \<^verbatim>\<open>{"in_stock": True}\<close>, \<^verbatim>\<open>"tags": {"$in": [tag]}\<close> and
  \<^verbatim>\<open>"$or": [{"name": {"$regex": q, "$options": "i"}}, ...]\<close>. A dictionary is
  the list of its entries in insertion order; the store reads the entries as a
  conjunction and an \<^verbatim>\<open>$or\<close> entry as the disjunction of its clauses.
\<close>

datatype field_cond =
  Equals_bool bool
  | In_list "string list"
  | Regex string string

datatype filter_entry =
  Field string field_cond
  | Or_group "(string \<times> field_cond) list"

type_synonym filter_dict = "filter_entry list"

text \<open>
  The regular-expression engine belongs to the store, not to this repository, so it is a
  parameter: \<open>rx pattern options\<close> is \<open>None\<close> when the store rejects the pattern and
  \<open>Some m\<close> otherwise, where \<open>m s\<close> says whether the pattern is found somewhere in
  \<open>s\<close>.
\<close>

type_synonym regex_engine = "string \<Rightarrow> string \<Rightarrow> (string \<Rightarrow> bool) option"

text \<open>
  What the store's operators mean on a key's value: equality with a boolean; \<^verbatim>\<open>$in\<close>,
  which holds of a list when one of its elements is among the given values and of a
  string when the string is; \<^verbatim>\<open>$regex\<close>, which holds of a string the pattern is found
  in and of a list with such an element. No operator holds of an absent key.
\<close>

fun cond_holds :: "regex_engine \<Rightarrow> field_cond \<Rightarrow> bson option \<Rightarrow> bool" where
  "cond_holds rx (Equals_bool b) v = (v = Some (BBool b))"
| "cond_holds rx (In_list xs) v =
     (case v of
        Some (BStrList ts) \<Rightarrow> list_ex (\<lambda>t. t \<in> set xs) ts
      | Some (BStr s) \<Rightarrow> s \<in> set xs
      | _ \<Rightarrow> False)"
| "cond_holds rx (Regex p opts) v =
     (case rx p opts of
        None \<Rightarrow> False
      | Some m \<Rightarrow>
          (case v of
             Some (BStr s) \<Rightarrow> m s
           | Some (BStrList ts) \<Rightarrow> list_ex m ts
           | _ \<Rightarrow> False))"

fun cond_ok :: "regex_engine \<Rightarrow> field_cond \<Rightarrow> bool" where
  "cond_ok rx (Regex p opts) = (rx p opts \<noteq> None)"
| "cond_ok rx c = True"

fun entry_ok :: "regex_engine \<Rightarrow> filter_entry \<Rightarrow> bool" where
  "entry_ok rx (Field k c) = cond_ok rx c"
| "entry_ok rx (Or_group cs) = list_all (\<lambda>kc. cond_ok rx (snd kc)) cs"

fun entry_matches :: "regex_engine \<Rightarrow> beverage_doc \<Rightarrow> filter_entry \<Rightarrow> bool" where
  "entry_matches rx d (Field k c) = cond_holds rx c (field_value d k)"
| "entry_matches rx d (Or_group cs) =
     list_ex (\<lambda>kc. cond_holds rx (snd kc) (field_value d (fst kc))) cs"

definition matches :: "regex_engine \<Rightarrow> filter_dict \<Rightarrow> beverage_doc \<Rightarrow> bool" where
  "matches rx filter_dict d = list_all (entry_matches rx d) filter_dict"

text \<open>
  Modelled from the spec: \<^verbatim>\<open>get_documents\<close> of the module \<^verbatim>\<open>database\<close>, which is
  not among the sources. The spec gives the store adapter the operation
  ``find by filter'': the documents of the collection that satisfy the filter, in the
  store's order, each with its \<^verbatim>\<open>_id\<close>. The collection is passed as its list of
  documents, so \<^verbatim>\<open>get_documents("beverage", filter_dict)\<close> on the database \<open>db\<close> is
  \<open>get_documents rx (beverage db) filter_dict\<close>. A filter with a pattern the store
  rejects fails the whole query.
\<close>

definition get_documents ::
  "regex_engine \<Rightarrow> beverage_doc list \<Rightarrow> filter_dict \<Rightarrow> exn + beverage_doc list" where
  "get_documents rx collection filter_dict =
     (if list_all (entry_ok rx) filter_dict
      then Inr (filter (matches rx filter_dict) collection)
      else Inl (OperationFailure ''Regular expression is invalid''))"

section \<open>The store\<close>

text \<open>
  The fields \<^verbatim>\<open>CreateInquiry\<close> (\<^verbatim>\<open>main.py\<close>) and \<^verbatim>\<open>ContactInquiry\<close>
  (\<^verbatim>\<open>schemas.py\<close>) share, and a document of the collection \<^verbatim>\<open>contactinquiry\<close>:
  those fields and the store's \<^verbatim>\<open>_id\<close>.
\<close>

record inquiry =
  inq_name :: string
  inq_email :: string
  inq_phone :: "string option"
  inq_subject :: string
  inq_message :: string

record inquiry_doc = inquiry +
  inq_id :: object_id

text \<open>
  The database \<^verbatim>\<open>db\<close>: its two collections and the next identifier the store hands
  out. The module-level \<^verbatim>\<open>db\<close> is \<^verbatim>\<open>None\<close> when no database is configured, so a
  handler that tests it takes a \<open>store option\<close>.
\<close>

record store =
  beverage :: "beverage_doc list"
  contactinquiry :: "inquiry_doc list"
  next_id :: object_id

section \<open>GET /api/beverages\<close>

text \<open>Python's truth value of an \<^verbatim>\<open>Optional[str]\<close>: \<^verbatim>\<open>None\<close> and \<^verbatim>\<open>""\<close> are false.\<close>

definition truthy :: "string option \<Rightarrow> bool" where
  "truthy s = (case s of None \<Rightarrow> False | Some t \<Rightarrow> t \<noteq> [])"

text \<open>\<^verbatim>\<open>i.pop("_id", None)\<close>: the key is removed, and nothing happens when it is absent.\<close>

definition pop_id :: "beverage_doc \<Rightarrow> beverage_doc" where
  "pop_id i = i\<lparr>mongo_id := None\<rparr>"

text \<open>
  The handler. It reaches the store only through \<^verbatim>\<open>get_documents("beverage", filter_dict)\<close>,
  a function of the module \<^verbatim>\<open>database\<close>, which is not among the sources: that call is
  the parameter \<open>get_beverage_documents\<close>, from the filter to the documents found or the
  exception raised.
\<close>

definition list_beverages ::
  "(filter_dict \<Rightarrow> exn + beverage_doc list) \<Rightarrow> string option \<Rightarrow> string option
     \<Rightarrow> exn + beverage_doc list" where
  "list_beverages get_beverage_documents tag q =
     (let filter_dict = [Field ''in_stock'' (Equals_bool True)];
          filter_dict =
            (if truthy tag
             then filter_dict @ [Field ''tags'' (In_list [the tag])]
             else filter_dict);
          filter_dict =
            (if truthy q
             then filter_dict @
               [Or_group
                  [(''name'', Regex (the q) ''i''),
                   (''flavor'', Regex (the q) ''i''),
                   (''description'', Regex (the q) ''i'')]]
             else filter_dict)
      in case get_beverage_documents filter_dict of
           Inl e \<Rightarrow> Inl e
         | Inr items \<Rightarrow> Inr (map pop_id items))"

section \<open>POST /api/contact\<close>

text \<open>
  The handler receives a \<^verbatim>\<open>CreateInquiry\<close>, whose \<^verbatim>\<open>email\<close> is a plain \<^verbatim>\<open>str\<close>, and
  builds a \<^verbatim>\<open>ContactInquiry\<close> from its fields, whose \<^verbatim>\<open>email\<close> is an \<^verbatim>\<open>EmailStr\<close>.
  The address grammar is the validation library's, so the check is a parameter:
  \<open>email_str s\<close> is \<open>None\<close> when \<open>s\<close> is not an address and the normalised address
  otherwise. The constructor raises \<^verbatim>\<open>ValidationError\<close> on a value it refuses.
\<close>

definition ContactInquiry :: "(string \<Rightarrow> string option) \<Rightarrow> inquiry \<Rightarrow> exn + inquiry" where
  "ContactInquiry email_str data =
     (case email_str (inq_email data) of
        None \<Rightarrow> Inl (ValidationError ''value is not a valid email address'')
      | Some address \<Rightarrow> Inr (data\<lparr>inq_email := address\<rparr>))"

text \<open>
  Modelled from the spec: \<^verbatim>\<open>create_document\<close> of the module \<^verbatim>\<open>database\<close>, which is
  not among the sources. The spec: it persists one record and returns a generated
  identifier.
\<close>

definition create_document :: "store \<Rightarrow> inquiry \<Rightarrow> object_id \<times> store" where
  "create_document db ci =
     (next_id db,
      db\<lparr>contactinquiry := contactinquiry db @ [inquiry.extend ci \<lparr>inq_id = next_id db\<rparr>],
         next_id := Suc (next_id db)\<rparr>)"

record contact_response =
  ack_ok :: bool
  ack_id :: object_id

definition submit_contact ::
  "(string \<Rightarrow> string option) \<Rightarrow> store \<Rightarrow> inquiry \<Rightarrow> (exn + contact_response) \<times> store" where
  "submit_contact email_str db inquiry =
     (case ContactInquiry email_str inquiry of
        Inl e \<Rightarrow> (Inl e, db)
      | Inr ci \<Rightarrow>
          (case create_document db ci of
             (new_id, db') \<Rightarrow> (Inr \<lparr>ack_ok = True, ack_id = new_id\<rparr>, db')))"

text \<open>
  The status the framework answers with: 200 for a returned value, its own code for an
  \<^verbatim>\<open>HTTPException\<close>, 422 for a request the framework refused before the handler ran
  (\<^verbatim>\<open>RequestValidationError\<close>), and 500 for any other exception that leaves a handler.
\<close>

fun status_code :: "exn + 'a \<Rightarrow> nat" where
  "status_code (Inr r) = 200"
| "status_code (Inl (HTTPException code detail)) = code"
| "status_code (Inl (RequestValidationError m)) = 422"
| "status_code (Inl e) = 500"

section \<open>POST /api/beverages/seed\<close>

definition sample :: "beverage_doc list" where
  "sample =
     [\<lparr>mongo_id = None,
       name = ''Citrus Zing'',
       flavor = ''Lemon + Lime'',
       description = Some ''A bright, zesty squash made from sun-ripened lemons and limes.'',
       price = 3.99,
       size_ml = 500,
       image_url = Some ''https://images.unsplash.com/photo-1524594227084-6df73d85d2f9?w=800&q=80'',
       tags = [''citrus'', ''refreshing'', ''vegan''],
       in_stock = True,
       created_at = None,
       updated_at = None\<rparr>,
      \<lparr>mongo_id = None,
       name = ''Mango Bliss'',
       flavor = ''Alphonso Mango'',
       description = Some ''Thick, luscious mango squash with no added preservatives.'',
       price = 4.49,
       size_ml = 500,
       image_url = Some ''https://images.unsplash.com/photo-1547514701-42782101795e?w=800&q=80'',
       tags = [''tropical'', ''best-seller''],
       in_stock = True,
       created_at = None,
       updated_at = None\<rparr>,
      \<lparr>mongo_id = None,
       name = ''Guava Glow'',
       flavor = ''Pink Guava'',
       description = Some ''Delicately sweet guava squash perfect for summer coolers.'',
       price = 4.29,
       size_ml = 500,
       image_url = Some ''https://images.unsplash.com/photo-1604908554027-6e2ce8f94bd7?w=800&q=80'',
       tags = [''tropical'', ''vitamin-c''],
       in_stock = True,
       created_at = None,
       updated_at = None\<rparr>,
      \<lparr>mongo_id = None,
       name = ''Orange Orchard'',
       flavor = ''Valencia Orange'',
       description = Some ''Classic orange squash with a clean, fresh finish.'',
       price = 3.79,
       size_ml = 500,
       image_url = Some ''https://images.unsplash.com/photo-1557800636-894a64c1696f?w=800&q=80'',
       tags = [''citrus'', ''family''],
       in_stock = True,
       created_at = None,
       updated_at = None\<rparr>]"

text \<open>The loop body \<^verbatim>\<open>s["created_at"] = now; s["updated_at"] = now\<close>.\<close>

definition stamp :: "datetime \<Rightarrow> beverage_doc \<Rightarrow> beverage_doc" where
  "stamp now s = s\<lparr>created_at := Some now, updated_at := Some now\<rparr>"

text \<open>
  The collection's \<^verbatim>\<open>count_documents({})\<close> and \<^verbatim>\<open>insert_many\<close>: the store gives each
  document without an \<^verbatim>\<open>_id\<close> a new one and appends the documents in order.
\<close>

definition count_documents :: "beverage_doc list \<Rightarrow> nat" where
  "count_documents collection = length collection"

fun assign_ids :: "object_id \<Rightarrow> beverage_doc list \<Rightarrow> beverage_doc list" where
  "assign_ids n [] = []"
| "assign_ids n (d # ds) =
     (case mongo_id d of None \<Rightarrow> d\<lparr>mongo_id := Some n\<rparr> | Some i \<Rightarrow> d) # assign_ids (Suc n) ds"

definition insert_many :: "store \<Rightarrow> beverage_doc list \<Rightarrow> store" where
  "insert_many db docs =
     db\<lparr>beverage := beverage db @ assign_ids (next_id db) docs,
        next_id := next_id db + length docs\<rparr>"

record seed_response =
  ok :: bool
  message :: string
  count :: nat

text \<open>\<open>now\<close> is the clock's \<^verbatim>\<open>datetime.now(timezone.utc)\<close>, read once.\<close>

definition seed_beverages ::
  "store option \<Rightarrow> datetime \<Rightarrow> (exn + seed_response) \<times> store option" where
  "seed_beverages db now =
     (case db of
        None \<Rightarrow> (Inl (HTTPException 500 ''Database not configured''), db)
      | Some st \<Rightarrow>
          (let count = count_documents (beverage st) in
           if count > 0
           then (Inr \<lparr>ok = True, message = ''Beverages already seeded'', count = count\<rparr>, db)
           else
             (let docs = map (stamp now) sample in
              (Inr \<lparr>ok = True, message = ''Seeded beverages'', count = length docs\<rparr>,
               Some (insert_many st docs)))))"

text \<open>
  The schema's constraints on a \<^verbatim>\<open>Beverage\<close> (\<^verbatim>\<open>schemas.py\<close>): \<^verbatim>\<open>price\<close> has
  \<^verbatim>\<open>ge=0\<close>, \<^verbatim>\<open>size_ml\<close> has \<^verbatim>\<open>ge=50, le=5000\<close>.
\<close>

definition Beverage_constraints :: "beverage_doc \<Rightarrow> bool" where
  "Beverage_constraints d = (0 \<le> price d \<and> 50 \<le> size_ml d \<and> size_ml d \<le> 5000)"

section \<open>GET /test\<close>

text \<open>
  What the handler sees of the database object: \<open>name_attr\<close> is \<open>None\<close> when the
  object has no attribute \<^verbatim>\<open>name\<close>, and otherwise what reading it gives, a name or an
  exception; \<open>list_collection_names\<close> is what the call of that name gives.
\<close>

record db_handle =
  name_attr :: "(exn + string) option"
  list_collection_names :: "exn + string list"

record diagnostics =
  backend :: string
  database :: string
  database_url :: "string option"
  database_name :: "string option"
  connection_status :: string
  collections :: "string list"

text \<open>\<^verbatim>\<open>str(e)\<close>: the message of an exception.\<close>

fun exn_str :: "exn \<Rightarrow> string" where
  "exn_str (HTTPException code detail) = detail"
| "exn_str (RequestValidationError m) = m"
| "exn_str (ValidationError m) = m"
| "exn_str (OperationFailure m) = m"
| "exn_str (Exception m) = m"

text \<open>The three pictographs of the status strings, as their UTF-8 bytes.\<close>

definition check_mark :: string where
  "check_mark = [CHR 0xE2, CHR 0x9C, CHR 0x85]"

definition cross_mark :: string where
  "cross_mark = [CHR 0xE2, CHR 0x9D, CHR 0x8C]"

definition warning_sign :: string where
  "warning_sign = [CHR 0xE2, CHR 0x9A, CHR 0xA0, CHR 0xEF, CHR 0xB8, CHR 0x8F]"

text \<open>
  A block of statements that updates \<^verbatim>\<open>response\<close> in place leaves the dictionary as it
  was when an exception interrupted it: a block gives the dictionary and the exception
  it raised, if any. \<open>except_Exception\<close> is \<^verbatim>\<open>except Exception as e\<close> around a block.
\<close>

definition except_Exception ::
  "diagnostics \<times> exn option \<Rightarrow> (exn \<Rightarrow> diagnostics \<Rightarrow> diagnostics) \<Rightarrow> diagnostics \<times> exn option" where
  "except_Exception block handler =
     (case block of
        (response, None) \<Rightarrow> (response, None)
      | (response, Some e) \<Rightarrow> (handler e response, None))"

text \<open>The inner \<^verbatim>\<open>try\<close>: list the collections, keep the first ten.\<close>

definition list_block :: "db_handle \<Rightarrow> diagnostics \<Rightarrow> diagnostics \<times> exn option" where
  "list_block db response =
     (case list_collection_names db of
        Inl e \<Rightarrow> (response, Some e)
      | Inr names \<Rightarrow>
          (response\<lparr>collections := take 10 names,
                    database := check_mark @ '' Connected & Working''\<rparr>, None))"

text \<open>The outer \<^verbatim>\<open>try\<close>.\<close>

definition probe_block :: "db_handle option \<Rightarrow> diagnostics \<Rightarrow> diagnostics \<times> exn option" where
  "probe_block db response =
     (case db of
        None \<Rightarrow> (response\<lparr>database := warning_sign @ ''  Available but not initialized''\<rparr>, None)
      | Some h \<Rightarrow>
          (let response = response\<lparr>database := check_mark @ '' Available''\<rparr>;
               response = response\<lparr>database_url := Some (check_mark @ '' Configured'')\<rparr>
           in case name_attr h of
                Some (Inl e) \<Rightarrow> (response, Some e)
              | attr \<Rightarrow>
                  (let response = response\<lparr>database_name :=
                         Some (case attr of Some (Inr n) \<Rightarrow> n | _ \<Rightarrow> check_mark @ '' Connected'')\<rparr>;
                       response = response\<lparr>connection_status := ''Connected''\<rparr>
                   in except_Exception (list_block h response)
                        (\<lambda>e r. r\<lparr>database :=
                           warning_sign @ ''  Connected but Error: '' @ take 50 (exn_str e)\<rparr>))))"

text \<open>
  The handler. \<open>environ\<close> is the process environment; \<^verbatim>\<open>os.getenv\<close> gives \<^verbatim>\<open>None\<close> for
  an unset variable. The result is a sum as for the other handlers: \<open>Inl\<close> would be an
  exception that leaves the handler.
\<close>

definition test_database :: "db_handle option \<Rightarrow> (string \<rightharpoonup> string) \<Rightarrow> exn + diagnostics" where
  "test_database db environ =
     (let response =
            \<lparr>backend = check_mark @ '' Running'',
             database = cross_mark @ '' Not Available'',
             database_url = None,
             database_name = None,
             connection_status = ''Not Connected'',
             collections = []\<rparr>
      in case except_Exception (probe_block db response)
                (\<lambda>e r. r\<lparr>database := cross_mark @ '' Error: '' @ take 50 (exn_str e)\<rparr>) of
           (response, Some e) \<Rightarrow> Inl e
         | (response, None) \<Rightarrow>
             (let response = response\<lparr>database_url :=
                    Some (if truthy (environ ''DATABASE_URL'')
                          then check_mark @ '' Set'' else cross_mark @ '' Not Set'')\<rparr>;
                  response = response\<lparr>database_name :=
                    Some (if truthy (environ ''DATABASE_NAME'')
                          then check_mark @ '' Set'' else cross_mark @ '' Not Set'')\<rparr>
              in Inr response))"

section \<open>Substrings and a regular-expression engine\<close>

text \<open>
  What the specification calls a case-insensitive substring: \<open>q\<close> occurs in \<open>s\<close>
  when, both in lower case, \<open>q\<close> is a block of consecutive characters of \<open>s\<close>. Case
  is that of the letters A to Z.
\<close>

definition lower :: "char \<Rightarrow> char" where
  "lower c =
     (case map_of (zip ''ABCDEFGHIJKLMNOPQRSTUVWXYZ'' ''abcdefghijklmnopqrstuvwxyz'') c of
        Some l \<Rightarrow> l
      | None \<Rightarrow> c)"

fun starts_with :: "string \<Rightarrow> string \<Rightarrow> bool" where
  "starts_with [] s = True"
| "starts_with (p # ps) [] = False"
| "starts_with (p # ps) (c # cs) = (p = c \<and> starts_with ps cs)"

fun occurs_in :: "string \<Rightarrow> string \<Rightarrow> bool" where
  "occurs_in q [] = (q = [])"
| "occurs_in q (c # cs) = (starts_with q (c # cs) \<or> occurs_in q cs)"

definition occurs_in_ci :: "string \<Rightarrow> string \<Rightarrow> bool" where
  "occurs_in_ci q s = occurs_in (map lower q) (map lower s)"

text \<open>
  An engine for the patterns made of ordinary characters and dots, on which it does what
  the store's engine does: an ordinary character stands for itself, in either case under
  the option \<^verbatim>\<open>i\<close>; a dot stands for any character but a line feed; the pattern is
  searched for at every position. A pattern with another special character
  (\<^verbatim>\<open>^ $ | ? * + ( ) [ ] { }\<close> or a backslash) is outside this engine, which gives \<open>None\<close>
  for it.
\<close>

definition regex_special :: string where
  "regex_special = ''^$|?*+()[]{}'' @ [CHR 0x5C]"

fun atom_matches :: "bool \<Rightarrow> char \<Rightarrow> char \<Rightarrow> bool" where
  "atom_matches ci p c =
     (if p = CHR ''.'' then c \<noteq> CHR 0x0A
      else if ci then lower p = lower c
      else p = c)"

fun match_here :: "bool \<Rightarrow> string \<Rightarrow> string \<Rightarrow> bool" where
  "match_here ci [] s = True"
| "match_here ci (p # ps) [] = False"
| "match_here ci (p # ps) (c # cs) = (atom_matches ci p c \<and> match_here ci ps cs)"

fun found_in :: "bool \<Rightarrow> string \<Rightarrow> string \<Rightarrow> bool" where
  "found_in ci p [] = (p = [])"
| "found_in ci p (c # cs) = (match_here ci p (c # cs) \<or> found_in ci p cs)"

definition dot_regex :: regex_engine where
  "dot_regex p opts =
     (if list_ex (\<lambda>c. c \<in> set regex_special) p \<or> (opts \<noteq> [] \<and> opts \<noteq> ''i'')
      then None
      else Some (found_in (opts = ''i'') p))"

text \<open>A store for examples: the empty database, and the database after one seed.\<close>

definition empty_db :: store where
  "empty_db = \<lparr>beverage = [], contactinquiry = [], next_id = 0\<rparr>"

definition seeded_db :: store where
  "seeded_db = insert_many empty_db (map (stamp 1700000000) sample)"

text \<open>
  \<open>m\<close> holds of the name, the flavor or the description of a document; a document
  without a description has none for \<open>m\<close> to hold of.
\<close>

definition q_matches :: "(string \<Rightarrow> bool) \<Rightarrow> beverage_doc \<Rightarrow> bool" where
  "q_matches m d =
     (m (name d) \<or> m (flavor d) \<or> (case description d of None \<Rightarrow> False | Some x \<Rightarrow> m x))"

text \<open>
  A check for examples that refuses what every address grammar refuses, a string
  without an at sign, and leaves the others as they are.
\<close>

definition needs_at_sign :: "string \<Rightarrow> string option" where
  "needs_at_sign s = (if CHR ''@'' \<in> set s then Some s else None)"

text \<open>An inquiry for examples, with the given address.\<close>

definition inquiry_from :: "string \<Rightarrow> inquiry" where
  "inquiry_from address =
     \<lparr>inq_name = ''Ada'', inq_email = address, inq_phone = None,
      inq_subject = ''Order'', inq_message = ''Hello''\<rparr>"

section \<open>Substrings and the engine: basic facts\<close>

text \<open>\<open>occurs_in\<close> is the substring relation of the list library.\<close>

lemma starts_with_prefix: "starts_with q s = prefix q s"
  by (induction q s rule: starts_with.induct) auto

lemma occurs_in_sublist: "occurs_in q s = sublist q s"
  by (induction s) (auto simp: starts_with_prefix sublist_Cons_right)

text \<open>On a pattern without a dot the engine searches for the pattern as it is written.\<close>

lemma match_here_literal:
  "CHR ''.'' \<notin> set p \<Longrightarrow> match_here True p s = starts_with (map lower p) (map lower s)"
  by (induction p s rule: starts_with.induct) auto

lemma found_in_literal:
  "CHR ''.'' \<notin> set p \<Longrightarrow> found_in True p s = occurs_in_ci p s"
  by (induction s) (auto simp: occurs_in_ci_def match_here_literal)

lemma dot_regex_literal:
  assumes "CHR ''.'' \<notin> set q" and "set q \<inter> set regex_special = {}"
  shows "dot_regex q ''i'' = Some (occurs_in_ci q)"
proof -
  have "\<not> list_ex (\<lambda>c. c \<in> set regex_special) q"
    using assms(2) by (auto simp: list_ex_iff)
  moreover have "found_in True q = occurs_in_ci q"
    using assms(1) by (auto simp: found_in_literal)
  ultimately show ?thesis
    by (simp add: dot_regex_def)
qed

section \<open>The listing endpoint\<close>

subsection \<open>What the filter of a request selects\<close>

lemma matches_Nil: "matches rx [] d = True"
  by (simp add: matches_def)

lemma matches_in_stock:
  "matches rx (Field ''in_stock'' (Equals_bool True) # f) d = (in_stock d \<and> matches rx f d)"
  by (simp add: matches_def field_value_def)

lemma matches_tags:
  "matches rx (Field ''tags'' (In_list [t]) # f) d = (t \<in> set (tags d) \<and> matches rx f d)"
  by (auto simp: matches_def field_value_def list_ex_iff)

lemma matches_regex:
  "rx p ''i'' = Some m \<Longrightarrow>
   matches rx (Or_group [(''name'', Regex p ''i''), (''flavor'', Regex p ''i''),
                         (''description'', Regex p ''i'')] # f) d
     = (q_matches m d \<and> matches rx f d)"
  by (auto simp: matches_def field_value_def q_matches_def split: option.splits)

lemmas matches_simps = matches_Nil matches_in_stock matches_tags matches_regex

text \<open>The three ways a request ends: no query text, a pattern the store takes, one it rejects.\<close>

lemma list_beverages_plain:
  "\<not> truthy q \<Longrightarrow>
   list_beverages (get_documents rx (beverage db)) tag q =
     Inr (map pop_id
       (filter (\<lambda>d. in_stock d \<and> (if truthy tag then the tag \<in> set (tags d) else True))
          (beverage db)))"
  by (simp add: list_beverages_def get_documents_def Let_def matches_simps cong: filter_cong)

lemma list_beverages_regex:
  "truthy q \<Longrightarrow> rx (the q) ''i'' = Some m \<Longrightarrow>
   list_beverages (get_documents rx (beverage db)) tag q =
     Inr (map pop_id
       (filter (\<lambda>d. in_stock d \<and> (if truthy tag then the tag \<in> set (tags d) else True)
                  \<and> q_matches m d)
          (beverage db)))"
  by (simp add: list_beverages_def get_documents_def Let_def matches_simps cong: filter_cong)

lemma list_beverages_rejected:
  "truthy q \<Longrightarrow> rx (the q) ''i'' = None \<Longrightarrow>
   list_beverages (get_documents rx (beverage db)) tag q = Inl (OperationFailure ''Regular expression is invalid'')"
  by (simp add: list_beverages_def get_documents_def Let_def)

lemma list_beverages_items:
  assumes "list_beverages (get_documents rx (beverage db)) tag q = Inr items"
  shows "\<exists>P. items = map pop_id
            (filter (\<lambda>d. in_stock d \<and> (if truthy tag then the tag \<in> set (tags d) else True) \<and> P d)
               (beverage db))
     \<and> (\<not> truthy q \<longrightarrow> P = (\<lambda>d. True))
     \<and> (truthy q \<longrightarrow> (\<exists>m. rx (the q) ''i'' = Some m \<and> P = q_matches m))"
proof (cases "truthy q")
  case False
  then show ?thesis
    using assms by (intro exI [of _ "\<lambda>d. True"]) (simp add: list_beverages_plain)
next
  case True
  show ?thesis
  proof (cases "rx (the q) ''i''")
    case None
    then show ?thesis
      using True assms by (simp add: list_beverages_rejected)
  next
    case (Some m)
    then show ?thesis
      using True assms by (intro exI [of _ "q_matches m"]) (simp add: list_beverages_regex)
  qed
qed

lemma pop_id_simps:
  "in_stock (pop_id d) = in_stock d"
  "tags (pop_id d) = tags d"
  "mongo_id (pop_id d) = None"
  by (simp_all add: pop_id_def)

subsection \<open>Claims about the listing\<close>

text \<open>
  Claim C1. Whatever \<^verbatim>\<open>tag\<close> and \<^verbatim>\<open>q\<close> a request carries, every record of an answered
  listing has \<^verbatim>\<open>in_stock = true\<close>.
\<close>

theorem list_beverages_in_stock:
  assumes "list_beverages (get_documents rx (beverage db)) tag q = Inr items" and "d \<in> set items"
  shows "in_stock d"
  using list_beverages_items [OF assms(1)] assms(2) by (auto simp: pop_id_simps)

text \<open>On the seeded store the tag \<^verbatim>\<open>tropical\<close> selects the second and the third document.\<close>

theorem list_beverages_in_stock_witness:
  "list_beverages (get_documents dot_regex (beverage seeded_db)) (Some ''tropical'') None
     = Inr [pop_id (beverage seeded_db ! 1), pop_id (beverage seeded_db ! 2)]
   \<and> in_stock (pop_id (beverage seeded_db ! 2))"
proof -
  have e: "list_beverages (get_documents dot_regex (beverage seeded_db)) (Some ''tropical'') None
     = Inr [pop_id (beverage seeded_db ! 1), pop_id (beverage seeded_db ! 2)]"
    by code_simp
  show ?thesis
    using list_beverages_in_stock [OF e, of "pop_id (beverage seeded_db ! 2)"] e by simp
qed

text \<open>
  Claim C6. No record of an answered listing has the key \<^verbatim>\<open>_id\<close>: the handler pops it
  from every document the store returned, whatever the store returned.
\<close>

theorem list_beverages_no_id:
  assumes "list_beverages get_beverage_documents tag q = Inr items" and "d \<in> set items"
  shows "mongo_id d = None"
  using assms by (auto simp: list_beverages_def Let_def pop_id_def split: sum.splits)

text \<open>The stored document has an \<^verbatim>\<open>_id\<close>; the record of the listing has none.\<close>

theorem list_beverages_no_id_witness:
  "mongo_id (beverage seeded_db ! 3) = Some 3
   \<and> list_beverages (get_documents dot_regex (beverage seeded_db)) None (Some ''orchard'')
       = Inr [pop_id (beverage seeded_db ! 3)]
   \<and> mongo_id (pop_id (beverage seeded_db ! 3)) = None"
proof -
  have e: "list_beverages (get_documents dot_regex (beverage seeded_db)) None (Some ''orchard'')
       = Inr [pop_id (beverage seeded_db ! 3)]"
    by code_simp
  have i: "mongo_id (beverage seeded_db ! 3) = Some 3"
    by code_simp
  show ?thesis
    using list_beverages_no_id [OF e, of "pop_id (beverage seeded_db ! 3)"] e i by simp
qed

text \<open>
  Claim C10. A \<^verbatim>\<open>tag\<close> or a \<^verbatim>\<open>q\<close> that is the empty string is the parameter left out,
  whatever the store does with a filter; \<^verbatim>\<open>tag=""\<close> alone asks the store for
  \<^verbatim>\<open>{"in_stock": True}\<close> and so lists every in-stock beverage.
\<close>

theorem empty_parameter_as_omitted:
  "list_beverages get_beverage_documents (Some []) q = list_beverages get_beverage_documents None q
   \<and> list_beverages get_beverage_documents tag (Some [])
       = list_beverages get_beverage_documents tag None
   \<and> list_beverages get_beverage_documents (Some []) None
       = (case get_beverage_documents [Field ''in_stock'' (Equals_bool True)] of
            Inl e \<Rightarrow> Inl e
          | Inr items \<Rightarrow> Inr (map pop_id items))
   \<and> list_beverages (get_documents rx (beverage db)) (Some []) None
       = Inr (map pop_id (filter in_stock (beverage db)))"
  by (simp add: list_beverages_def truthy_def Let_def get_documents_def matches_simps
      cong: filter_cong)

text \<open>
  Claim C5, as amended. For a non-empty \<^verbatim>\<open>tag\<close> \<open>X\<close>, every record of an answered
  listing has \<open>X\<close> among its tags, and every in-stock beverage with \<open>X\<close> among its
  tags is listed (without its \<^verbatim>\<open>_id\<close>) provided it also passes the query text, when the
  request carries one.
\<close>

theorem tag_listing:
  assumes "X \<noteq> []" and "list_beverages (get_documents rx (beverage db)) (Some X) q = Inr items"
  shows "(\<forall>d\<in>set items. X \<in> set (tags d))
    \<and> (\<forall>d\<in>set (beverage db).
          in_stock d \<and> X \<in> set (tags d)
          \<and> (if truthy q then \<exists>m. rx (the q) ''i'' = Some m \<and> q_matches m d else True)
          \<longrightarrow> pop_id d \<in> set items)"
proof -
  have t: "truthy (Some X)"
    using assms(1) by (simp add: truthy_def)
  from list_beverages_items [OF assms(2)] t show ?thesis
    by (auto simp: pop_id_simps)
qed

theorem tag_listing_witness:
  "''citrus'' \<noteq> []
   \<and> list_beverages (get_documents dot_regex (beverage seeded_db)) (Some ''citrus'') None
       = Inr [pop_id (beverage seeded_db ! 0), pop_id (beverage seeded_db ! 3)]
   \<and> ''citrus'' \<in> set (tags (pop_id (beverage seeded_db ! 0)))
   \<and> ''citrus'' \<in> set (tags (pop_id (beverage seeded_db ! 3)))"
proof -
  have e: "list_beverages (get_documents dot_regex (beverage seeded_db)) (Some ''citrus'') None
       = Inr [pop_id (beverage seeded_db ! 0), pop_id (beverage seeded_db ! 3)]"
    by code_simp
  have n: "''citrus'' \<noteq> []"
    by simp
  show ?thesis
    using tag_listing [OF n e] e by simp
qed

text \<open>
  The claim as written fails when the request also carries a query text: with
  \<^verbatim>\<open>tag=citrus&q=mango\<close> nothing is listed, although the first seeded beverage is in
  stock and tagged \<^verbatim>\<open>citrus\<close>.
\<close>

theorem tag_listing_counterexample:
  "list_beverages (get_documents dot_regex (beverage seeded_db)) (Some ''citrus'') (Some ''mango'') = Inr []
   \<and> in_stock (beverage seeded_db ! 0)
   \<and> ''citrus'' \<in> set (tags (beverage seeded_db ! 0))"
  by code_simp

text \<open>
  Claim C4, as amended. For a non-empty \<^verbatim>\<open>q\<close> that the store's engine reads as the
  literal text, the listing is exactly the in-stock beverages in which \<^verbatim>\<open>q\<close> occurs,
  whatever the case, in the name, the flavor or the description, narrowed to the tag
  when the request carries one; the records come in the store's order, without
  \<^verbatim>\<open>_id\<close>.
\<close>

theorem q_listing:
  assumes "q \<noteq> []" and "rx q ''i'' = Some (occurs_in_ci q)"
  shows "list_beverages (get_documents rx (beverage db)) tag (Some q) =
     Inr (map pop_id (filter (\<lambda>d. in_stock d
        \<and> (if truthy tag then the tag \<in> set (tags d) else True)
        \<and> q_matches (occurs_in_ci q) d) (beverage db)))"
  using assms by (simp add: list_beverages_regex truthy_def)

theorem q_listing_witness:
  "''MANGO'' \<noteq> []
   \<and> dot_regex ''MANGO'' ''i'' = Some (occurs_in_ci ''MANGO'')
   \<and> list_beverages (get_documents dot_regex (beverage seeded_db)) None (Some ''MANGO'')
       = Inr [pop_id (beverage seeded_db ! 1)]"
proof -
  have n: "''MANGO'' \<noteq> []"
    by simp
  have r: "dot_regex ''MANGO'' ''i'' = Some (occurs_in_ci ''MANGO'')"
    by (rule dot_regex_literal) (simp_all add: regex_special_def)
  have e: "list_beverages (get_documents dot_regex (beverage seeded_db)) None (Some ''MANGO'')
       = Inr [pop_id (beverage seeded_db ! 1)]"
    by code_simp
  show ?thesis
    using q_listing [where q = "''MANGO''" and rx = dot_regex and db = seeded_db and tag = None]
      n r e
    by simp
qed

text \<open>
  The claim as written fails twice. The handler passes \<^verbatim>\<open>q\<close> to the store as a
  pattern: \<^verbatim>\<open>q=m.n\<close> lists the first two seeded beverages (``lemons'', ``Mango''), and
  the text \<^verbatim>\<open>m.n\<close> occurs in no field of either. And a tag narrows the listing:
  with \<^verbatim>\<open>tag=citrus&q=mango\<close> the in-stock beverage whose name has ``mango'' is not
  listed.
\<close>

theorem q_listing_counterexample:
  "list_beverages (get_documents dot_regex (beverage seeded_db)) None (Some ''m.n'')
     = Inr [pop_id (beverage seeded_db ! 0), pop_id (beverage seeded_db ! 1)]
   \<and> \<not> q_matches (occurs_in_ci ''m.n'') (beverage seeded_db ! 0)
   \<and> \<not> q_matches (occurs_in_ci ''m.n'') (beverage seeded_db ! 1)
   \<and> list_beverages (get_documents dot_regex (beverage seeded_db)) (Some ''citrus'') (Some ''mango'') = Inr []
   \<and> in_stock (beverage seeded_db ! 1)
   \<and> q_matches (occurs_in_ci ''mango'') (beverage seeded_db ! 1)"
  by code_simp

section \<open>The seed endpoint\<close>

lemma length_assign_ids: "length (assign_ids n ds) = length ds"
  by (induction ds arbitrary: n) (auto split: option.splits)

lemma length_sample: "length sample = 4"
  by (simp add: sample_def)

text \<open>
  Claim C3. On an empty collection the seed inserts four documents and reports 4; a
  call that finds documents inserts none and reports how many it found, so a second
  call reports 4 and leaves the store as the first call left it.
\<close>

theorem seed_beverages_guard:
  "(beverage st = [] \<longrightarrow>
      seed_beverages (Some st) now =
        (Inr \<lparr>ok = True, message = ''Seeded beverages'', count = 4\<rparr>,
         Some (insert_many st (map (stamp now) sample)))
      \<and> length (beverage (insert_many st (map (stamp now) sample))) = 4
      \<and> seed_beverages (snd (seed_beverages (Some st) now)) later =
        (Inr \<lparr>ok = True, message = ''Beverages already seeded'', count = 4\<rparr>,
         Some (insert_many st (map (stamp now) sample))))
   \<and> (beverage st \<noteq> [] \<longrightarrow>
      seed_beverages (Some st) now =
        (Inr \<lparr>ok = True, message = ''Beverages already seeded'', count = length (beverage st)\<rparr>,
         Some st))"
  by (simp add: seed_beverages_def count_documents_def Let_def insert_many_def
      length_assign_ids length_sample)

theorem seed_beverages_guard_witness:
  "beverage empty_db = []
   \<and> seed_beverages (Some empty_db) 1700000000 =
        (Inr \<lparr>ok = True, message = ''Seeded beverages'', count = 4\<rparr>, Some seeded_db)
   \<and> length (beverage seeded_db) = 4
   \<and> beverage seeded_db \<noteq> []
   \<and> seed_beverages (Some seeded_db) 1700000060 =
        (Inr \<lparr>ok = True, message = ''Beverages already seeded'', count = 4\<rparr>, Some seeded_db)"
proof -
  have a: "beverage empty_db = []"
    by (simp add: empty_db_def)
  have b: "beverage seeded_db \<noteq> []"
    by (simp add: seeded_db_def insert_many_def sample_def)
  have c: "length (beverage seeded_db) = 4"
    by (simp add: seeded_db_def insert_many_def empty_db_def length_assign_ids length_sample)
  show ?thesis
    using seed_beverages_guard [of empty_db 1700000000 1700000060]
      seed_beverages_guard [of seeded_db 1700000060 0] a b c
    by (simp add: seeded_db_def)
qed

text \<open>
  Claim C8. Without a database the seed raises \<^verbatim>\<open>HTTPException\<close> with status 500, and
  there is no store to insert into.
\<close>

theorem seed_without_database:
  "seed_beverages None now = (Inl (HTTPException 500 ''Database not configured''), None)
   \<and> status_code (fst (seed_beverages None now)) = 500"
  by (simp add: seed_beverages_def)

lemma assign_ids_fields:
  "d \<in> set (assign_ids n ds) \<Longrightarrow>
   \<exists>s\<in>set ds. name d = name s \<and> flavor d = flavor s \<and> price d = price s
      \<and> size_ml d = size_ml s \<and> created_at d = created_at s \<and> updated_at d = updated_at s"
  by (induction ds arbitrary: n) (auto split: option.splits)

lemma sample_fields:
  "s \<in> set sample \<Longrightarrow> Beverage_constraints s \<and> name s \<noteq> [] \<and> flavor s \<noteq> []"
  by (auto simp: sample_def Beverage_constraints_def)

text \<open>
  Claim C9. Every document a call of the seed adds to the collection meets the
  schema's constraints on \<^verbatim>\<open>price\<close> and \<^verbatim>\<open>size_ml\<close>, has a name and a flavor, and
  carries the call's time in both \<^verbatim>\<open>created_at\<close> and \<^verbatim>\<open>updated_at\<close>.
\<close>

theorem seeded_documents_valid:
  assumes "seed_beverages (Some st) now = (Inr r, Some st')"
    and "d \<in> set (drop (length (beverage st)) (beverage st'))"
  shows "Beverage_constraints d \<and> name d \<noteq> [] \<and> flavor d \<noteq> []
    \<and> created_at d = Some now \<and> updated_at d = Some now \<and> created_at d = updated_at d"
proof (cases "count_documents (beverage st) > 0")
  case True
  then have "st' = st"
    using assms(1) by (simp add: seed_beverages_def Let_def)
  then show ?thesis
    using assms(2) by simp
next
  case False
  then have "st' = insert_many st (map (stamp now) sample)"
    using assms(1) by (simp add: seed_beverages_def Let_def)
  then have "d \<in> set (assign_ids (next_id st) (map (stamp now) sample))"
    using assms(2) by (simp add: insert_many_def)
  from assign_ids_fields [OF this] obtain s where
    s: "s \<in> set sample" and
    f: "name d = name (stamp now s)" "flavor d = flavor (stamp now s)"
       "price d = price (stamp now s)" "size_ml d = size_ml (stamp now s)"
       "created_at d = created_at (stamp now s)" "updated_at d = updated_at (stamp now s)"
    by auto
  from sample_fields [OF s] f show ?thesis
    by (simp add: stamp_def Beverage_constraints_def)
qed

theorem seeded_documents_valid_witness:
  "seed_beverages (Some empty_db) 1700000000 =
        (Inr \<lparr>ok = True, message = ''Seeded beverages'', count = 4\<rparr>, Some seeded_db)
   \<and> beverage seeded_db ! 2 \<in> set (drop (length (beverage empty_db)) (beverage seeded_db))
   \<and> price (beverage seeded_db ! 2) = 4.29
   \<and> Beverage_constraints (beverage seeded_db ! 2)
   \<and> created_at (beverage seeded_db ! 2) = Some 1700000000
   \<and> updated_at (beverage seeded_db ! 2) = Some 1700000000"
proof -
  have a: "seed_beverages (Some empty_db) 1700000000 =
        (Inr \<lparr>ok = True, message = ''Seeded beverages'', count = 4\<rparr>, Some seeded_db)"
    by (simp add: seed_beverages_def count_documents_def empty_db_def seeded_db_def length_sample)
  have b: "beverage seeded_db ! 2 \<in> set (drop (length (beverage empty_db)) (beverage seeded_db))"
    by (simp add: empty_db_def seeded_db_def insert_many_def sample_def)
  have c: "price (beverage seeded_db ! 2) = 4.29"
    by (simp add: empty_db_def seeded_db_def insert_many_def sample_def stamp_def)
  show ?thesis
    using seeded_documents_valid [OF a b] a b c by simp
qed

section \<open>The contact endpoint\<close>

text \<open>
  Claim C2, on the code. An inquiry whose address the check refuses stores nothing, as
  the claim says; but the refusal is a \<^verbatim>\<open>ValidationError\<close> raised inside the handler,
  which the framework answers with status 500, not 422: the request model
  \<^verbatim>\<open>CreateInquiry\<close> has taken the address as a plain string.
\<close>

theorem contact_invalid_email:
  assumes "email_str (inq_email inquiry) = None"
  shows "fst (submit_contact email_str db inquiry)
           = Inl (ValidationError ''value is not a valid email address'')
    \<and> status_code (fst (submit_contact email_str db inquiry)) = 500
    \<and> snd (submit_contact email_str db inquiry) = db"
  using assms by (simp add: submit_contact_def ContactInquiry_def)

theorem contact_invalid_email_witness:
  "needs_at_sign (inq_email (inquiry_from ''not-an-email'')) = None
   \<and> status_code (fst (submit_contact needs_at_sign empty_db (inquiry_from ''not-an-email''))) = 500
   \<and> snd (submit_contact needs_at_sign empty_db (inquiry_from ''not-an-email'')) = empty_db"
proof -
  have a: "needs_at_sign (inq_email (inquiry_from ''not-an-email'')) = None"
    by (simp add: needs_at_sign_def inquiry_from_def)
  show ?thesis
    using contact_invalid_email
      [where email_str = needs_at_sign and inquiry = "inquiry_from ''not-an-email''"
         and db = empty_db] a
    by simp
qed

text \<open>An inquiry whose address the check takes is stored, one document more.\<close>

lemma contact_valid_email:
  assumes "email_str (inq_email inquiry) = Some a"
  shows "status_code (fst (submit_contact email_str db inquiry)) = 200
    \<and> length (contactinquiry (snd (submit_contact email_str db inquiry)))
        = Suc (length (contactinquiry db))"
  using assms by (simp add: submit_contact_def ContactInquiry_def create_document_def)

section \<open>The diagnostics endpoint\<close>

lemma except_Exception_catches: "snd (except_Exception block handler) = None"
  by (cases block) (auto simp: except_Exception_def split: option.splits)

lemma test_database_returns: "\<exists>r. test_database db environ = Inr r"
proof -
  obtain r where "except_Exception (probe_block db
            \<lparr>backend = check_mark @ '' Running'',
             database = cross_mark @ '' Not Available'',
             database_url = None,
             database_name = None,
             connection_status = ''Not Connected'',
             collections = []\<rparr>)
          (\<lambda>e r. r\<lparr>database := cross_mark @ '' Error: '' @ take 50 (exn_str e)\<rparr>) = (r, None)"
    using except_Exception_catches by (metis prod.collapse)
  then show ?thesis
    by (simp add: test_database_def Let_def)
qed

lemma test_database_no_handle:
  "\<exists>r. test_database None environ = Inr r
     \<and> database r = warning_sign @ ''  Available but not initialized''"
  by (simp add: test_database_def probe_block_def except_Exception_def Let_def)

lemma test_database_listing_raises:
  "\<exists>r. test_database (Some \<lparr>name_attr = Some (Inr n), list_collection_names = Inl e\<rparr>) environ
         = Inr r
     \<and> database r = warning_sign @ ''  Connected but Error: '' @ take 50 (exn_str e)"
  by (simp add: test_database_def probe_block_def list_block_def except_Exception_def Let_def)

lemma test_database_name_raises:
  "\<exists>r. test_database (Some \<lparr>name_attr = Some (Inl e), list_collection_names = l\<rparr>) environ
         = Inr r
     \<and> database r = cross_mark @ '' Error: '' @ take 50 (exn_str e)"
  by (simp add: test_database_def probe_block_def list_block_def except_Exception_def Let_def)

text \<open>
  Claim C7. Whatever the database object does, the handler returns its dictionary, so
  the answer has status 200: without a database the status string says so, and an
  exception from listing the collections or from reading the name ends as a status
  string with the first fifty characters of its message.
\<close>

theorem test_database_never_fails:
  "(\<exists>r. test_database db environ = Inr r)
   \<and> status_code (test_database db environ) = 200
   \<and> (\<exists>r. test_database None environ = Inr r
        \<and> database r = warning_sign @ ''  Available but not initialized'')
   \<and> (\<exists>r. test_database (Some \<lparr>name_attr = Some (Inr n), list_collection_names = Inl e\<rparr>)
             environ = Inr r
        \<and> database r = warning_sign @ ''  Connected but Error: '' @ take 50 (exn_str e))
   \<and> (\<exists>r. test_database (Some \<lparr>name_attr = Some (Inl e), list_collection_names = l\<rparr>)
             environ = Inr r
        \<and> database r = cross_mark @ '' Error: '' @ take 50 (exn_str e))"
proof -
  obtain r where "test_database db environ = Inr r"
    using test_database_returns by blast
  then have "status_code (test_database db environ) = 200"
    by simp
  then show ?thesis
    using test_database_returns test_database_no_handle test_database_listing_raises
      test_database_name_raises
    by blast
qed

end
